theory Spec2Isabelle
  imports Main "HOL-Library.Word"
begin

section \<open>Netlink message and attribute schema (libnl++ protocols/MessageDefinition.h)\<close>

text \<open>
  The header \<^verbatim>\<open>MessageDefinition.h\<close> declares the schema types of the netlink message
  printer: attribute definitions, attribute maps, message descriptors and the
  \<^verbatim>\<open>MessageDefinition<T>\<close> template with its bounds-checked \<^verbatim>\<open>dataToStream\<close>.
  Types and inline member functions are embedded from the header. The bodies of the
  members that the header only declares (they live in \<^verbatim>\<open>MessageDefinition.cpp\<close>) and
  the helpers of \<^verbatim>\<open>libnl++/Buffer.h\<close> and \<^verbatim>\<open>libnl++/types.h\<close> are embedded from
  the specification; each such definition says so.
\<close>

subsection \<open>Primitive types\<close>

text \<open>
  Modelled from the spec: \<^verbatim>\<open>nlattrtype_t\<close> and \<^verbatim>\<open>nlmsgtype_t\<close> are typedefs of
  \<^verbatim>\<open>libnl++/types.h\<close>, which is missing; the spec calls both "an unsigned numeric key".
  The schema only compares them and prints them, so their width plays no role.
\<close>

type_synonym nlattrtype_t = nat
type_synonym nlmsgtype_t = nat

type_synonym byte = "8 word"

text \<open>
  A buffer is the sequence of bytes that a \<^verbatim>\<open>Buffer<T>\<close> view may read; a
  \<^verbatim>\<open>std::stringstream\<close> is the text written to it so far.
\<close>

type_synonym Buffer = "byte list"
type_synonym stringstream = string

text \<open>
  \<^verbatim>\<open>std::to_string\<close> on an unsigned value: its decimal digits, most significant first,
  without padding.
\<close>

definition digit_char :: "nat \<Rightarrow> char" where
  "digit_char d = ''0123456789'' ! d"

fun to_string :: "nat \<Rightarrow> string" where
  "to_string n = (if n < 10 then [digit_char n] else to_string (n div 10) @ [digit_char (n mod 10)])"

declare to_string.simps [simp del]

subsection \<open>Attribute definitions and attribute maps\<close>

datatype DataType = Raw | Nested | String | Uint | Struct

text \<open>
  \<^verbatim>\<open>AttributeDefinition::ToStream\<close> is
  \<^verbatim>\<open>std::function<void(std::stringstream& ss, const Buffer<nlattr> attr)>\<close>:
  it takes the stream and the attribute's bytes and leaves the stream updated.
\<close>

type_synonym ToStream = "stringstream \<Rightarrow> Buffer \<Rightarrow> stringstream"

text \<open>
  \<^verbatim>\<open>AttributeMap\<close> derives from
  \<^verbatim>\<open>std::map<std::optional<nlattrtype_t>, AttributeDefinition>\<close>, and
  \<^verbatim>\<open>AttributeDefinition::ops\<close> is \<^verbatim>\<open>std::variant<AttributeMap, ToStream>\<close>: the
  three types are mutually recursive. The map is kept as the list of entries it was
  built from; \<^verbatim>\<open>std::map\<close> ignores an entry whose key is already present, so a key
  denotes its first entry.
\<close>

datatype AttributeDefinition =
  AttributeDefinition (name: string) (dataType: DataType) (ops: AttributeOps)
and AttributeOps =
  OpsAttributeMap AttributeMap
| OpsToStream ToStream
and AttributeMap =
  AttributeMap (entries: "(nlattrtype_t option \<times> AttributeDefinition) list")

text \<open>\<^verbatim>\<open>std::map::find\<close> on an attribute map: the entry of a key, if there is one.\<close>

definition AttributeMap_find :: "AttributeMap \<Rightarrow> nlattrtype_t option \<Rightarrow> AttributeDefinition option" where
  "AttributeMap_find m k = map_of (entries m) k"

text \<open>
  Aggregate initialisation of an \<^verbatim>\<open>AttributeDefinition\<close>: the name is given, the data
  type and the ops may be left out, and a member left out takes its default member
  initialiser of the header: \<^verbatim>\<open>DataType dataType = DataType::Raw\<close> and
  \<^verbatim>\<open>std::variant<AttributeMap, ToStream> ops = AttributeMap{}\<close>.
\<close>

definition AttributeDefinition_init ::
  "string \<Rightarrow> DataType option \<Rightarrow> AttributeOps option \<Rightarrow> AttributeDefinition" where
  "AttributeDefinition_init n dt os =
     AttributeDefinition n
       (case dt of None \<Rightarrow> Raw | Some t \<Rightarrow> t)
       (case os of None \<Rightarrow> OpsAttributeMap (AttributeMap []) | Some v \<Rightarrow> v)"

text \<open>
  Modelled from the spec: the body of \<^verbatim>\<open>AttributeMap::operator[]\<close>, which the header
  only declares. The spec: "If id is explicitly registered, returns its definition
  unchanged. Else, if a default entry exists, returns it unchanged. Else, synthesizes
  and returns \<open>{name: textual(id), dataType: Raw, ops: None}\<close>." The header's comment
  says the same of the last case: "a generic definition with a identifier as its name
  will be generated". The variant type of \<^verbatim>\<open>ops\<close> has no alternative for "none", so
  the synthesized definition is the aggregate with the name alone, its other members
  left to their default member initialisers.
\<close>

definition AttributeMap_lookup :: "AttributeMap \<Rightarrow> nlattrtype_t \<Rightarrow> AttributeDefinition" where
  "AttributeMap_lookup m nla_type =
     (case AttributeMap_find m (Some nla_type) of
        Some d \<Rightarrow> d
      | None \<Rightarrow>
          (case AttributeMap_find m None of
             Some d \<Rightarrow> d
           | None \<Rightarrow> AttributeDefinition_init (to_string nla_type) None None))"

subsection \<open>Message descriptors\<close>

datatype MessageGenre = UNKNOWN | GET | NEW | DELETE | ACK

datatype MessageDetails = MessageDetails (name: string) (genre: MessageGenre)

text \<open>
  \<^verbatim>\<open>MessageDetailsMap\<close> is \<^verbatim>\<open>std::map<nlmsgtype_t, MessageDetails>\<close>, kept like the
  attribute map as the list of entries it was built from.
\<close>

type_synonym MessageDetailsMap = "(nlmsgtype_t \<times> MessageDetails) list"

definition MessageDetailsMap_find :: "MessageDetailsMap \<Rightarrow> nlmsgtype_t \<Rightarrow> MessageDetails option" where
  "MessageDetailsMap_find m k = map_of m k"

text \<open>The private members of \<^verbatim>\<open>MessageDescriptor\<close>, all of them \<^verbatim>\<open>const\<close>.\<close>

record MessageDescriptor =
  mName :: string
  mContentsSize :: nat
  mMessageDetails :: MessageDetailsMap
  mAttributeMap :: AttributeMap

text \<open>
  Modelled from the spec: the body of the \<^verbatim>\<open>MessageDescriptor\<close> constructor, which the
  header only declares. The spec: a descriptor is \<open>{familyName, contentsSize,
  messageDetails, attributes}\<close>, each "constructed once" and with "nothing mutated
  afterward"; the constructor's four parameters become the four members.
\<close>

definition MessageDescriptor_init ::
  "string \<Rightarrow> MessageDetailsMap \<Rightarrow> AttributeMap \<Rightarrow> nat \<Rightarrow> MessageDescriptor" where
  "MessageDescriptor_init nm messageDetails attrTypes contentsSize =
     \<lparr>mName = nm, mContentsSize = contentsSize,
      mMessageDetails = messageDetails, mAttributeMap = attrTypes\<rparr>"

text \<open>
  Modelled from the spec: the body of \<^verbatim>\<open>getContentsSize\<close>, which the header only
  declares. The spec: "fixed header size for bounds validation by callers".
\<close>

definition getContentsSize :: "'a MessageDescriptor_scheme \<Rightarrow> nat" where
  "getContentsSize d = mContentsSize d"

text \<open>
  Modelled from the spec: the body of \<^verbatim>\<open>getMessageDetailsMap\<close>, which the header only
  declares. The spec: "full registered table".
\<close>

definition getMessageDetailsMap :: "'a MessageDescriptor_scheme \<Rightarrow> MessageDetailsMap" where
  "getMessageDetailsMap d = mMessageDetails d"

text \<open>
  Modelled from the spec: the body of \<^verbatim>\<open>getAttributeMap\<close>, which the header only
  declares. The spec: "this family's attribute schema".
\<close>

definition getAttributeMap :: "'a MessageDescriptor_scheme \<Rightarrow> AttributeMap" where
  "getAttributeMap d = mAttributeMap d"

text \<open>
  Modelled from the spec: the body of the member \<^verbatim>\<open>getMessageDetails(msgtype)\<close>, which
  the header only declares. The spec: "returns the registered entry if present, else
  synthesizes \<open>{name: textual(msgtype), genre: UNKNOWN}\<close>".
\<close>

definition getMessageDetails :: "'a MessageDescriptor_scheme \<Rightarrow> nlmsgtype_t \<Rightarrow> MessageDetails" where
  "getMessageDetails d msgtype =
     (case MessageDetailsMap_find (mMessageDetails d) msgtype of
        None \<Rightarrow> MessageDetails (to_string msgtype) UNKNOWN
      | Some details \<Rightarrow> details)"

text \<open>
  Modelled from the spec: the body of the static
  \<^verbatim>\<open>getMessageDetails(msgDescMaybe, msgtype)\<close>, which the header only declares. The
  spec: "if no descriptor is supplied, returns the same unknown placeholder without
  touching any descriptor; otherwise delegates to the descriptor's resolve".
\<close>

definition getMessageDetails_static ::
  "'a MessageDescriptor_scheme option \<Rightarrow> nlmsgtype_t \<Rightarrow> MessageDetails" where
  "getMessageDetails_static msgDescMaybe msgtype =
     (case msgDescMaybe of
        Some d \<Rightarrow> getMessageDetails d msgtype
      | None \<Rightarrow> MessageDetails (to_string msgtype) UNKNOWN)"

subsection \<open>The message definition template\<close>

text \<open>
  The template parameter \<^verbatim>\<open>T\<close> of \<^verbatim>\<open>MessageDefinition<T>\<close> is a native header
  struct. The schema needs two things of it: \<^verbatim>\<open>sizeof(T)\<close>, and how \<^verbatim>\<open>sizeof(T)\<close>
  bytes of a buffer read as a value of \<^verbatim>\<open>T\<close>. Both are parameters here.
\<close>

record 'T NativeType =
  sizeof :: nat
  fromBytes :: "Buffer \<Rightarrow> 'T"

text \<open>
  Modelled from the spec: \<^verbatim>\<open>hdr.data<T>().getFirst()\<close> of \<^verbatim>\<open>libnl++/Buffer.h\<close>,
  which is missing. The spec: "read-first-as-T(buffer) \<rightarrow> (success: bool, value: T), never
  raising on short input, only signaling failure via the boolean"; the read is "a
  bounds-checked typed read of the first contentsSize bytes of buffer as T" and fails
  "if the buffer is shorter than contentsSize". The argument is the
  buffer of the spec: the bytes that the view may read. The spec leaves the value of a
  failed read open; it is taken to be the all-zero \<^verbatim>\<open>T\<close>, and \<^verbatim>\<open>dataToStream\<close>
  never looks at it.
\<close>

definition data_getFirst :: "'T NativeType \<Rightarrow> Buffer \<Rightarrow> bool \<times> 'T" where
  "data_getFirst T hdr =
     (if sizeof T \<le> length hdr
      then (True, fromBytes T (take (sizeof T) hdr))
      else (False, fromBytes T (replicate (sizeof T) 0)))"

text \<open>
  \<^verbatim>\<open>MessageDefinition<T>\<close> derives from \<^verbatim>\<open>MessageDescriptor\<close>. A concrete family
  overrides the pure virtual \<^verbatim>\<open>toStream(std::stringstream& ss, const T& data)\<close>; the
  override is a field of the object, a function from the stream and the header value
  to the stream it leaves.
\<close>

record 'T MessageDefinition = MessageDescriptor +
  headerType :: "'T NativeType"
  toStream :: "stringstream \<Rightarrow> 'T \<Rightarrow> stringstream"

text \<open>
  The constructor passes the name and both tables on to the base class, together with
  \<^verbatim>\<open>sizeof(T)\<close>. The attribute table may be left out and is then empty
  (\<^verbatim>\<open>attrTypes = {}\<close>). \<^verbatim>\<open>AttributeMap\<close>'s constructor takes the entries as they
  are listed.
\<close>

definition MessageDefinition_init ::
  "'T NativeType \<Rightarrow> (stringstream \<Rightarrow> 'T \<Rightarrow> stringstream) \<Rightarrow> string \<Rightarrow> MessageDetailsMap
     \<Rightarrow> (nlattrtype_t option \<times> AttributeDefinition) list option \<Rightarrow> 'T MessageDefinition" where
  "MessageDefinition_init T hook nm msgDet attrTypes =
     MessageDescriptor.extend
       (MessageDescriptor_init nm msgDet
          (AttributeMap (case attrTypes of None \<Rightarrow> [] | Some as \<Rightarrow> as)) (sizeof T))
       (MessageDefinition.fields T hook)"

definition dataToStream :: "'T MessageDefinition \<Rightarrow> stringstream \<Rightarrow> Buffer \<Rightarrow> stringstream" where
  "dataToStream self ss hdr =
     (case data_getFirst (headerType self) hdr of
        (ok, msg) \<Rightarrow>
          if \<not> ok then ss @ ''{incomplete payload}''
          else toStream self ss msg)"

text \<open>
  The public interface of a message definition, as calls on an object and the stream it
  writes to. Every member function of the interface is \<^verbatim>\<open>const\<close>: a call returns a
  value or writes to the stream, and leaves the object as it is.
\<close>

datatype Call =
  CallGetContentsSize
| CallGetMessageDetailsMap
| CallGetAttributeMap
| CallGetMessageDetails nlmsgtype_t
| CallDataToStream Buffer

record 'T World =
  object :: "'T MessageDefinition"
  stream :: stringstream

fun perform :: "'T World \<Rightarrow> Call \<Rightarrow> 'T World" where
  "perform w CallGetContentsSize = w"
| "perform w CallGetMessageDetailsMap = w"
| "perform w CallGetAttributeMap = w"
| "perform w (CallGetMessageDetails msgtype) = w"
| "perform w (CallDataToStream hdr) = w\<lparr>stream := dataToStream (object w) (stream w) hdr\<rparr>"

definition performAll :: "'T World \<Rightarrow> Call list \<Rightarrow> 'T World" where
  "performAll w cs = foldl perform w cs"

section \<open>Properties\<close>

subsection \<open>Helper facts\<close>

lemma mContentsSize_init:
  "mContentsSize (MessageDefinition_init T hook nm msgDet attrTypes) = sizeof T"
  by (simp add: MessageDefinition_init_def MessageDescriptor_init_def
      MessageDescriptor.defs MessageDefinition.defs)

lemma headerType_init:
  "headerType (MessageDefinition_init T hook nm msgDet attrTypes) = T"
  by (simp add: MessageDefinition_init_def MessageDescriptor_init_def
      MessageDescriptor.defs MessageDefinition.defs)

lemma toStream_init:
  "toStream (MessageDefinition_init T hook nm msgDet attrTypes) = hook"
  by (simp add: MessageDefinition_init_def MessageDescriptor_init_def
      MessageDescriptor.defs MessageDefinition.defs)

lemma mMessageDetails_init:
  "mMessageDetails (MessageDefinition_init T hook nm msgDet attrTypes) = msgDet"
  by (simp add: MessageDefinition_init_def MessageDescriptor_init_def
      MessageDescriptor.defs MessageDefinition.defs)

lemma object_perform: "object (perform w c) = object w"
  by (cases c) simp_all

lemma object_performAll: "object (performAll w cs) = object w"
  unfolding performAll_def
proof (induction cs arbitrary: w)
  case Nil
  show ?case by simp
next
  case (Cons c cs)
  have "object (foldl perform (perform w c) cs) = object (perform w c)"
    by (rule Cons.IH)
  then show ?case by (simp add: object_perform)
qed

subsection \<open>Truncated payloads\<close>

text \<open>
  C1. Let a message definition be constructed for a header type \<open>T\<close>, so that its contents
  size is the byte size of \<open>T\<close>. On a buffer shorter than the contents size,
  \<^verbatim>\<open>dataToStream\<close> appends the text \<^verbatim>\<open>{incomplete payload}\<close> to the stream and nothing
  else. This holds whatever the override of \<^verbatim>\<open>toStream\<close> is, also for one that always
  writes: the hook takes no part in the output, it is not called.
\<close>

theorem dataToStream_incomplete_payload:
  assumes "length hdr < getContentsSize (MessageDefinition_init T hook nm msgDet attrTypes)"
  shows "dataToStream (MessageDefinition_init T hook nm msgDet attrTypes) ss hdr
           = ss @ ''{incomplete payload}''"
proof -
  from assms have short: "\<not> sizeof T \<le> length hdr"
    by (simp add: getContentsSize_def mContentsSize_init)
  then have "data_getFirst T hdr = (False, fromBytes T (replicate (sizeof T) 0))"
    by (simp add: data_getFirst_def)
  then show ?thesis
    by (simp add: dataToStream_def headerType_init)
qed

theorem dataToStream_incomplete_payload_witness:
  "length (replicate 10 (0::byte))
     < getContentsSize (MessageDefinition_init \<lparr>sizeof = 16, fromBytes = (\<lambda>bs. bs)\<rparr>
         (\<lambda>ss bs. ss @ ''header'') ''route'' [(24, MessageDetails ''RTM_NEWROUTE'' NEW)] None)
   \<and> dataToStream (MessageDefinition_init \<lparr>sizeof = 16, fromBytes = (\<lambda>bs. bs)\<rparr>
         (\<lambda>ss bs. ss @ ''header'') ''route'' [(24, MessageDetails ''RTM_NEWROUTE'' NEW)] None)
       '''' (replicate 10 0) = ''{incomplete payload}''"
  using dataToStream_incomplete_payload
    [of "replicate 10 0" "\<lparr>sizeof = 16, fromBytes = (\<lambda>bs. bs)\<rparr>"
        "\<lambda>ss bs. ss @ ''header''" "''route''" "[(24, MessageDetails ''RTM_NEWROUTE'' NEW)]" None "''''"]
  by (simp add: getContentsSize_def mContentsSize_init)

subsection \<open>Attribute lookup\<close>

text \<open>
  C2, as amended. In an attribute map without a default entry, the lookup of an
  identifier that is not registered returns the synthesized definition: its name is the
  decimal text of the identifier, its data type is \<^verbatim>\<open>Raw\<close>, and its ops is the declared
  default of the member, the empty nested attribute map (the variant has no third
  alternative). The lookup is a total function: it returns a definition on every map.
\<close>

theorem lookup_unregistered_no_default:
  assumes "AttributeMap_find m (Some nla_type) = None"
    and "AttributeMap_find m None = None"
  shows "AttributeMap_lookup m nla_type
           = AttributeDefinition (to_string nla_type) Raw (OpsAttributeMap (AttributeMap []))"
  using assms by (simp add: AttributeMap_lookup_def AttributeDefinition_init_def)

theorem lookup_unregistered_no_default_witness:
  "AttributeMap_find
     (AttributeMap [(Some 1, AttributeDefinition_init ''FOO'' (Some String) None)]) (Some 99) = None
   \<and> AttributeMap_find
     (AttributeMap [(Some 1, AttributeDefinition_init ''FOO'' (Some String) None)]) None = None
   \<and> AttributeMap_lookup
     (AttributeMap [(Some 1, AttributeDefinition_init ''FOO'' (Some String) None)]) 99
       = AttributeDefinition ''99'' Raw (OpsAttributeMap (AttributeMap []))"
  using lookup_unregistered_no_default
    [of "AttributeMap [(Some 1, AttributeDefinition_init ''FOO'' (Some String) None)]" 99]
  by (simp add: AttributeMap_find_def to_string.simps digit_char_def)

text \<open>
  C2, as stated, asks for an ops that is "none". On the map \<open>{1: ("FOO", String)}\<close> the
  lookup of 99 returns a definition whose ops holds a nested attribute map, the empty
  one.
\<close>

theorem lookup_ops_none_counterexample:
  "ops (AttributeMap_lookup
          (AttributeMap [(Some 1, AttributeDefinition_init ''FOO'' (Some String) None)]) 99)
     = OpsAttributeMap (AttributeMap [])"
  by (simp add: AttributeMap_lookup_def AttributeMap_find_def AttributeDefinition_init_def)

text \<open>
  C6. In an attribute map with a default entry \<open>D\<close> (the entry under
  \<^verbatim>\<open>std::nullopt\<close>), the lookup of an identifier that is not registered returns \<open>D\<close>
  itself.
\<close>

theorem lookup_unregistered_default:
  assumes "AttributeMap_find m None = Some D"
    and "AttributeMap_find m (Some nla_type) = None"
  shows "AttributeMap_lookup m nla_type = D"
  using assms by (simp add: AttributeMap_lookup_def)

theorem lookup_unregistered_default_witness:
  "AttributeMap_find
     (AttributeMap [(Some 1, AttributeDefinition_init ''FOO'' (Some String) None),
                    (None, AttributeDefinition_init ''FALLBACK'' (Some Raw) None)]) None
       = Some (AttributeDefinition_init ''FALLBACK'' (Some Raw) None)
   \<and> AttributeMap_find
     (AttributeMap [(Some 1, AttributeDefinition_init ''FOO'' (Some String) None),
                    (None, AttributeDefinition_init ''FALLBACK'' (Some Raw) None)]) (Some 99)
       = None
   \<and> AttributeDefinition.name (AttributeMap_lookup
     (AttributeMap [(Some 1, AttributeDefinition_init ''FOO'' (Some String) None),
                    (None, AttributeDefinition_init ''FALLBACK'' (Some Raw) None)]) 99)
       = ''FALLBACK''"
  using lookup_unregistered_default
    [of "AttributeMap [(Some 1, AttributeDefinition_init ''FOO'' (Some String) None),
                       (None, AttributeDefinition_init ''FALLBACK'' (Some Raw) None)]"
        "AttributeDefinition_init ''FALLBACK'' (Some Raw) None" 99]
  by (simp add: AttributeMap_find_def AttributeDefinition_init_def)

text \<open>
  C7. The lookup of a registered identifier returns the definition registered for it,
  as it is.
\<close>

theorem lookup_registered:
  assumes "AttributeMap_find m (Some nla_type) = Some d"
  shows "AttributeMap_lookup m nla_type = d"
  using assms by (simp add: AttributeMap_lookup_def)

theorem lookup_registered_witness:
  "AttributeMap_find
     (AttributeMap [(Some 1, AttributeDefinition_init ''FOO'' (Some String) None),
                    (None, AttributeDefinition_init ''FALLBACK'' (Some Raw) None)]) (Some 1)
       = Some (AttributeDefinition ''FOO'' String (OpsAttributeMap (AttributeMap [])))
   \<and> AttributeMap_lookup
     (AttributeMap [(Some 1, AttributeDefinition_init ''FOO'' (Some String) None),
                    (None, AttributeDefinition_init ''FALLBACK'' (Some Raw) None)]) 1
       = AttributeDefinition ''FOO'' String (OpsAttributeMap (AttributeMap []))"
  using lookup_registered
    [of "AttributeMap [(Some 1, AttributeDefinition_init ''FOO'' (Some String) None),
                       (None, AttributeDefinition_init ''FALLBACK'' (Some Raw) None)]"
        1 "AttributeDefinition ''FOO'' String (OpsAttributeMap (AttributeMap []))"]
  by (simp add: AttributeMap_find_def AttributeDefinition_init_def)

subsection \<open>The ops member\<close>

text \<open>
  C3, as amended. The ops member of an attribute definition is a two-way tagged union:
  it holds a nested attribute map or a custom formatter. A definition built without an
  ops has the declared default, the empty nested attribute map.
\<close>

theorem ops_two_way_default_empty_map:
  "ops (AttributeDefinition_init n dt None) = OpsAttributeMap (AttributeMap [])
   \<and> ((\<exists>m. ops d = OpsAttributeMap m) \<or> (\<exists>f. ops d = OpsToStream f))"
proof
  show "ops (AttributeDefinition_init n dt None) = OpsAttributeMap (AttributeMap [])"
    by (simp add: AttributeDefinition_init_def)
  show "(\<exists>m. ops d = OpsAttributeMap m) \<or> (\<exists>f. ops d = OpsToStream f)"
    by (cases "ops d") simp_all
qed

text \<open>
  C3, as stated, says that the lack of custom behaviour is never an empty nested map.
  The definition \<open>("FOO", String)\<close>, built with no ops, holds the empty nested map.
\<close>

theorem ops_default_counterexample:
  "ops (AttributeDefinition_init ''FOO'' (Some String) None) = OpsAttributeMap (AttributeMap [])"
  by (simp add: AttributeDefinition_init_def)

text \<open>
  C10. An attribute definition built without a data type has the data type
  \<^verbatim>\<open>Raw\<close>, whatever its name and ops. The definition that the lookup synthesizes
  is built this way, from a name alone.
\<close>

theorem dataType_default_Raw:
  "dataType (AttributeDefinition_init n None os) = Raw"
  by (simp add: AttributeDefinition_init_def)

subsection \<open>Message details\<close>

text \<open>
  C4. \<^verbatim>\<open>getMessageDetails\<close> returns a value for every descriptor and every message
  type, each case on its own: if the type is not in the descriptor's table (the table
  may be empty), the result is the placeholder whose name is the decimal text of the
  type and whose genre is \<^verbatim>\<open>UNKNOWN\<close>; if the type is in the table, the result is its
  entry.
\<close>

theorem getMessageDetails_resolve:
  "(MessageDetailsMap_find (getMessageDetailsMap d) msgtype = None
      \<longrightarrow> getMessageDetails d msgtype = MessageDetails (to_string msgtype) UNKNOWN)
   \<and> (\<forall>details. MessageDetailsMap_find (getMessageDetailsMap d) msgtype = Some details
      \<longrightarrow> getMessageDetails d msgtype = details)"
proof (intro conjI allI impI)
  assume "MessageDetailsMap_find (getMessageDetailsMap d) msgtype = None"
  then show "getMessageDetails d msgtype = MessageDetails (to_string msgtype) UNKNOWN"
    by (simp add: getMessageDetails_def getMessageDetailsMap_def)
next
  fix details
  assume "MessageDetailsMap_find (getMessageDetailsMap d) msgtype = Some details"
  then show "getMessageDetails d msgtype = details"
    by (simp add: getMessageDetails_def getMessageDetailsMap_def)
qed

theorem getMessageDetails_resolve_witness:
  "MessageDetailsMap_find (getMessageDetailsMap
      (MessageDescriptor_init ''route'' [(24, MessageDetails ''RTM_NEWROUTE'' NEW)] (AttributeMap []) 12))
      4242 = None
   \<and> getMessageDetails
      (MessageDescriptor_init ''route'' [(24, MessageDetails ''RTM_NEWROUTE'' NEW)] (AttributeMap []) 12)
      4242 = MessageDetails ''4242'' UNKNOWN
   \<and> MessageDetailsMap_find (getMessageDetailsMap
      (MessageDescriptor_init ''route'' [(24, MessageDetails ''RTM_NEWROUTE'' NEW)] (AttributeMap []) 12))
      24 = Some (MessageDetails ''RTM_NEWROUTE'' NEW)
   \<and> getMessageDetails
      (MessageDescriptor_init ''route'' [(24, MessageDetails ''RTM_NEWROUTE'' NEW)] (AttributeMap []) 12)
      24 = MessageDetails ''RTM_NEWROUTE'' NEW
   \<and> MessageDetailsMap_find (getMessageDetailsMap
      (MessageDescriptor_init ''empty'' [] (AttributeMap []) 0)) 7 = None
   \<and> getMessageDetails (MessageDescriptor_init ''empty'' [] (AttributeMap []) 0) 7
      = MessageDetails ''7'' UNKNOWN"
  using
    getMessageDetails_resolve
      [of "MessageDescriptor_init ''route'' [(24, MessageDetails ''RTM_NEWROUTE'' NEW)] (AttributeMap []) 12"
          4242]
    getMessageDetails_resolve
      [of "MessageDescriptor_init ''route'' [(24, MessageDetails ''RTM_NEWROUTE'' NEW)] (AttributeMap []) 12"
          24]
    getMessageDetails_resolve [of "MessageDescriptor_init ''empty'' [] (AttributeMap []) 0" 7]
  by (simp add: MessageDetailsMap_find_def getMessageDetailsMap_def MessageDescriptor_init_def
      to_string.simps digit_char_def)

text \<open>
  C5. The static \<^verbatim>\<open>getMessageDetails\<close> without a descriptor returns the unknown
  placeholder of the message type, computed from the type alone; with a descriptor it
  returns what the descriptor's own \<^verbatim>\<open>getMessageDetails\<close> returns.
\<close>

theorem getMessageDetails_static_resolve:
  "getMessageDetails_static None msgtype = MessageDetails (to_string msgtype) UNKNOWN
   \<and> getMessageDetails_static (Some d) msgtype = getMessageDetails d msgtype"
  by (simp add: getMessageDetails_static_def)

subsection \<open>Contents size\<close>

text \<open>
  C8. The contents size of a message definition for a header type \<open>T\<close> is the byte size of
  \<open>T\<close>: \<^verbatim>\<open>getContentsSize\<close> returns it on the constructed object, and returns it still
  after any sequence of calls of the public interface.
\<close>

theorem getContentsSize_sizeof:
  "getContentsSize (MessageDefinition_init T hook nm msgDet attrTypes) = sizeof T
   \<and> getContentsSize (object (performAll
        \<lparr>object = MessageDefinition_init T hook nm msgDet attrTypes, stream = ss\<rparr> cs)) = sizeof T"
  by (simp add: getContentsSize_def mContentsSize_init object_performAll)

subsection \<open>Complete payloads\<close>

text \<open>
  C9. On a buffer at least as long as the contents size \<open>k\<close>, \<^verbatim>\<open>dataToStream\<close> hands the
  stream to the family's \<^verbatim>\<open>toStream\<close> together with the first \<open>k\<close> bytes of the buffer
  read as a \<open>T\<close>, and the stream the hook leaves is the result. The result is a function of
  the stream and of these \<open>k\<close> bytes: two buffers that agree on them, in particular two
  buffers with the same contents, give the same output.
\<close>

theorem dataToStream_delegates:
  assumes "self = MessageDefinition_init T hook nm msgDet attrTypes"
    and "getContentsSize self \<le> length hdr"
    and "getContentsSize self \<le> length hdr'"
    and "take (getContentsSize self) hdr' = take (getContentsSize self) hdr"
  shows "dataToStream self ss hdr = hook ss (fromBytes T (take (getContentsSize self) hdr))
         \<and> dataToStream self ss hdr' = dataToStream self ss hdr"
proof -
  have k: "getContentsSize self = sizeof T"
    using assms(1) by (simp add: getContentsSize_def mContentsSize_init)
  have run: "dataToStream self ss b = hook ss (fromBytes T (take (sizeof T) b))"
    if "sizeof T \<le> length b" for b
  proof -
    from that have "data_getFirst T b = (True, fromBytes T (take (sizeof T) b))"
      by (simp add: data_getFirst_def)
    then show ?thesis
      using assms(1) by (simp add: dataToStream_def headerType_init toStream_init)
  qed
  from assms(2) k have "dataToStream self ss hdr = hook ss (fromBytes T (take (sizeof T) hdr))"
    by (simp add: run)
  moreover from assms(3) k have "dataToStream self ss hdr' = hook ss (fromBytes T (take (sizeof T) hdr'))"
    by (simp add: run)
  ultimately show ?thesis
    using assms(4) k by simp
qed

theorem dataToStream_delegates_witness:
  "getContentsSize (MessageDefinition_init \<lparr>sizeof = 2, fromBytes = (\<lambda>bs. bs)\<rparr>
       (\<lambda>ss bs. ss @ map (\<lambda>b. if b = 0 then CHR ''z'' else CHR ''n'') bs) ''fam'' [] None)
     \<le> length [1, 0, 7::byte]
   \<and> take 2 [1, 0, 9, 9::byte] = take 2 [1, 0, 7::byte]
   \<and> dataToStream (MessageDefinition_init \<lparr>sizeof = 2, fromBytes = (\<lambda>bs. bs)\<rparr>
       (\<lambda>ss bs. ss @ map (\<lambda>b. if b = 0 then CHR ''z'' else CHR ''n'') bs) ''fam'' [] None)
       ''>'' [1, 0, 7] = ''>nz''
   \<and> dataToStream (MessageDefinition_init \<lparr>sizeof = 2, fromBytes = (\<lambda>bs. bs)\<rparr>
       (\<lambda>ss bs. ss @ map (\<lambda>b. if b = 0 then CHR ''z'' else CHR ''n'') bs) ''fam'' [] None)
       ''>'' [1, 0, 9, 9] = ''>nz''"
  using dataToStream_delegates
    [of "MessageDefinition_init \<lparr>sizeof = 2, fromBytes = (\<lambda>bs. bs)\<rparr>
           (\<lambda>ss bs. ss @ map (\<lambda>b. if b = 0 then CHR ''z'' else CHR ''n'') bs) ''fam'' [] None"
        "\<lparr>sizeof = 2, fromBytes = (\<lambda>bs. bs)\<rparr>"
        "\<lambda>ss bs. ss @ map (\<lambda>b. if b = 0 then CHR ''z'' else CHR ''n'') bs"
        "''fam''" "[]" None "[1, 0, 7]" "[1, 0, 9, 9]" "''>''"]
  by (simp add: getContentsSize_def mContentsSize_init)

end
